theory Spec2Isabelle
  imports Main "HOL-Library.Sublist"
begin

section \<open>The Bing Search MCP server: \<open>src/mcp/server.py\<close>\<close>

text \<open>
  The server exposes one tool, \<open>bing_search\<close>, which hands a query to a hosted agent
  through \<open>query_agent\<close>: look the agent up, create a thread, post the query, start a
  run, poll the run until its status leaves the polling set, and build the result
  dictionary from the last agent message of the thread.

  Python strings are modelled as \<open>string\<close>, a list of code points below 256. A
  call that may raise returns \<open>exn + 'a\<close> with \<open>Inl\<close> for the raise.
\<close>

subsection \<open>Values of the remote platform\<close>

text \<open>
  What a call raises: an instance of \<open>Exception\<close>, kept as its text \<open>str(e)\<close>, or
  a raise outside that class, such as \<open>asyncio.CancelledError\<close>, which the clauses
  \<open>except Exception\<close> of lines 129 and 165 do not catch.
\<close>

datatype exn = Exception string | BaseException string

datatype MessageRole = USER | AGENT

text \<open>\<open>thread.id\<close>; the field is named \<open>thread_ident\<close> because \<open>id\<close> is the identity of HOL.\<close>

record thread =
  thread_ident :: string

text \<open>A run: \<open>run.id\<close>, \<open>run.status\<close> and the text \<open>str(run.last_error)\<close>.\<close>

record run =
  run_ident :: string
  status :: string
  last_error :: string

text \<open>\<open>annotation.url_citation.title\<close> and \<open>annotation.url_citation.url\<close>.\<close>

record url_citation =
  title :: string
  url :: string

text \<open>
  A message of the thread: its role, the values \<open>text_message.text.value\<close> of its text
  segments and the \<open>url_citation\<close> of each of its URL-citation annotations.
\<close>

record message =
  role :: MessageRole
  text_messages :: "string list"
  url_citation_annotations :: "url_citation list"

subsection \<open>Observable effects\<close>

text \<open>
  Every remote call on the agent client, every \<open>asyncio.sleep\<close> and every
  \<open>logger.error\<close> is appended to a trace, so that calls can be counted.
\<close>

datatype event =
    GetAgent string
  | ThreadsCreate
  | MessagesCreate string MessageRole string
  | RunsCreate string string
  | RunsGet string string
  | MessagesList string
  | Sleep nat
  | LogError string

text \<open>The world: the state of the remote platform and the trace so far.\<close>

type_synonym 's world = "'s \<times> event list"

definition emit :: "event \<Rightarrow> 's world \<Rightarrow> 's world" where
  "emit ev w = (fst w, snd w @ [ev])"

definition is_sleep :: "event \<Rightarrow> bool" where
  "is_sleep ev = (case ev of Sleep n \<Rightarrow> True | _ \<Rightarrow> False)"

text \<open>
  The events that bring a run with its status: the creation of the run, whose status
  the loop tests first, and every \<open>runs.get\<close>.
\<close>

definition is_status_fetch :: "event \<Rightarrow> bool" where
  "is_status_fetch ev = (case ev of RunsCreate t a \<Rightarrow> True | RunsGet t r \<Rightarrow> True | _ \<Rightarrow> False)"

subsection \<open>The agent client\<close>

text \<open>
  The client is an external collaborator, consumed as an interface: the six operations
  \<open>query_agent\<close> calls on \<open>client.agents\<close>. Each takes the state of the platform and
  returns its answer, or the exception it raises, with the state it leaves.
  \<open>messages_list\<close> stands for the whole asynchronous iteration over
  \<open>client.agents.messages.list(thread_id)\<close>.
\<close>

record 's client =
  get_agent :: "string \<Rightarrow> 's \<Rightarrow> (exn + unit) \<times> 's"
  threads_create :: "'s \<Rightarrow> (exn + thread) \<times> 's"
  messages_create :: "string \<Rightarrow> MessageRole \<Rightarrow> string \<Rightarrow> 's \<Rightarrow> (exn + unit) \<times> 's"
  runs_create :: "string \<Rightarrow> string \<Rightarrow> 's \<Rightarrow> (exn + run) \<times> 's"
  runs_get :: "string \<Rightarrow> string \<Rightarrow> 's \<Rightarrow> (exn + run) \<times> 's"
  messages_list :: "string \<Rightarrow> 's \<Rightarrow> (exn + message list) \<times> 's"

text \<open>A remote call made in a world: the platform answers and the call is recorded.\<close>

definition call :: "event \<Rightarrow> ('s \<Rightarrow> (exn + 'a) \<times> 's) \<Rightarrow> 's world \<Rightarrow> (exn + 'a) \<times> 's world" where
  "call ev f w = (case f (fst w) of (r, s') \<Rightarrow> (r, (s', snd w @ [ev])))"

subsection \<open>Python values used by the result\<close>

text \<open>The values stored in the dictionaries the tool returns.\<close>

datatype pyval = B bool | S string | L "string list"

type_synonym dict = "string \<rightharpoonup> pyval"

text \<open>
  \<open>str.strip()\<close> without argument removes leading and trailing whitespace; the
  whitespace code points below 256 are those for which \<open>str.isspace\<close> holds.
\<close>

definition isspace :: "char \<Rightarrow> bool" where
  "isspace c = (c \<in> set [CHR 0x09, CHR 0x0A, CHR 0x0B, CHR 0x0C, CHR 0x0D,
                         CHR 0x1C, CHR 0x1D, CHR 0x1E, CHR 0x1F, CHR 0x20,
                         CHR 0x85, CHR 0xA0])"

definition lstrip :: "string \<Rightarrow> string" where
  "lstrip s = dropWhile isspace s"

definition rstrip :: "string \<Rightarrow> string" where
  "rstrip s = rev (dropWhile isspace (rev s))"

definition strip :: "string \<Rightarrow> string" where
  "strip s = lstrip (rstrip s)"

text \<open>Truthiness of an optional string: \<open>None\<close> and the empty string are false.\<close>

definition truthy :: "string option \<Rightarrow> bool" where
  "truthy v = (case v of None \<Rightarrow> False | Some s \<Rightarrow> s \<noteq> [])"

subsection \<open>\<open>query_agent\<close>\<close>

text \<open>
  Lines 73 to 81: the agent lookup, the new thread, the posted query and the new run.
  The first call that raises ends the sequence.
\<close>

definition start_run ::
  "'s client \<Rightarrow> string \<Rightarrow> string \<Rightarrow> 's world \<Rightarrow> (exn + (string \<times> run)) \<times> 's world" where
  "start_run c agent_id query w =
     (case call (GetAgent agent_id) (get_agent c agent_id) w of
        (Inl e, w1) \<Rightarrow> (Inl e, w1)
      | (Inr agent, w1) \<Rightarrow>
     (case call ThreadsCreate (threads_create c) w1 of
        (Inl e, w2) \<Rightarrow> (Inl e, w2)
      | (Inr thread, w2) \<Rightarrow>
     (let thread_id = thread_ident thread in
     (case call (MessagesCreate thread_id USER query) (messages_create c thread_id USER query) w2 of
        (Inl e, w3) \<Rightarrow> (Inl e, w3)
      | (Inr u, w3) \<Rightarrow>
     (case call (RunsCreate thread_id agent_id) (runs_create c thread_id agent_id) w3 of
        (Inl e, w4) \<Rightarrow> (Inl e, w4)
      | (Inr run, w4) \<Rightarrow> (Inr (thread_id, run), w4))))))"

text \<open>
  Lines 83 to 85: the polling loop. It has no bound, so it is a partial function: on a
  platform that never reports another status it does not return, which is \<open>None\<close>.
  The sleep itself returns; only the calls on the client raise.
\<close>

definition polling :: "string list" where
  "polling = [''queued'', ''in_progress'', ''requires_action'']"

partial_function (option) poll ::
  "'s client \<Rightarrow> string \<Rightarrow> run \<Rightarrow> 's world \<Rightarrow> ((exn + run) \<times> 's world) option" where
  "poll c thread_id run w =
     (if status run \<in> set polling then
        (case call (RunsGet thread_id (run_ident run)) (runs_get c thread_id (run_ident run))
                (emit (Sleep 1) w) of
           (Inl e, w') \<Rightarrow> Some (Inl e, w')
         | (Inr run', w') \<Rightarrow> poll c thread_id run' w')
      else Some (Inr run, w))"

declare poll.simps [code]

text \<open>Lines 100 to 102: the last message of the iteration whose role is the agent's.\<close>

definition select_response :: "message list \<Rightarrow> message option" where
  "select_response msgs =
     fold (\<lambda>msg response_message. if role msg = AGENT then Some msg else response_message)
       msgs None"

text \<open>Lines 108 and 109: every text segment followed by a line break.\<close>

definition join_text :: "string list \<Rightarrow> string" where
  "join_text segs = fold (\<lambda>t result. result @ t @ ''\<newline>'') segs []"

text \<open>Line 112: one citation rendered.\<close>

definition render :: "url_citation \<Rightarrow> string" where
  "render a = ''['' @ title a @ '']('' @ url a @ '')''"

text \<open>Lines 111 to 114: a rendered citation is appended unless the list has it already.\<close>

definition collect_citations :: "url_citation list \<Rightarrow> string list" where
  "collect_citations anns =
     fold (\<lambda>annotation citations.
             (let citation = render annotation
              in if citation \<notin> set citations then citations @ [citation] else citations))
       anns []"

text \<open>Lines 117 to 119: the header and one bulleted line for each citation.\<close>

definition sources :: "string list \<Rightarrow> string" where
  "sources citations =
     fold (\<lambda>citation result. result @ ''- '' @ citation @ ''\<newline>'') citations
       ''\<newline>\<newline>## Sources\<newline>''"

text \<open>Lines 104 to 119: the text and the citations taken from the selected message.\<close>

definition extract_message :: "message option \<Rightarrow> string \<times> string list" where
  "extract_message response_message =
     (let (result, citations) =
            (case response_message of
               None \<Rightarrow> ([], [])
             | Some m \<Rightarrow> (join_text (text_messages m),
                          collect_citations (url_citation_annotations m)))
      in (if citations \<noteq> [] then result @ sources citations else result, citations))"

text \<open>Lines 90 to 96 and 121 to 127: the two dictionaries \<open>query_agent\<close> returns.\<close>

definition failure_dict :: "string \<Rightarrow> string \<Rightarrow> string \<Rightarrow> dict" where
  "failure_dict error_msg thread_id run_id =
     [''success'' \<mapsto> B False,
      ''error'' \<mapsto> S error_msg,
      ''thread_id'' \<mapsto> S thread_id,
      ''run_id'' \<mapsto> S run_id,
      ''result'' \<mapsto> S (''Error: '' @ error_msg)]"

definition success_dict :: "string \<Rightarrow> string \<Rightarrow> string \<Rightarrow> string list \<Rightarrow> dict" where
  "success_dict thread_id run_id result citations =
     [''success'' \<mapsto> B True,
      ''thread_id'' \<mapsto> S thread_id,
      ''run_id'' \<mapsto> S run_id,
      ''result'' \<mapsto> S (strip result),
      ''citations'' \<mapsto> L citations]"

text \<open>Lines 98 to 127, once the messages are listed.\<close>

definition build_result :: "string \<Rightarrow> string \<Rightarrow> message list \<Rightarrow> dict" where
  "build_result thread_id run_id msgs =
     (case extract_message (select_response msgs) of
        (result, citations) \<Rightarrow> success_dict thread_id run_id result citations)"

text \<open>Lines 87 to 127: what follows the loop, for the run the loop ended with.\<close>

definition finish ::
  "'s client \<Rightarrow> string \<Rightarrow> string \<Rightarrow> run \<Rightarrow> 's world \<Rightarrow> (exn + dict) \<times> 's world" where
  "finish c thread_id run_id run w =
     (if status run = ''failed'' then
        (let error_msg = ''Agent run failed: '' @ last_error run
         in (Inr (failure_dict error_msg thread_id run_id), emit (LogError error_msg) w))
      else
        (case call (MessagesList thread_id) (messages_list c thread_id) w of
           (Inl e, w') \<Rightarrow> (Inl e, w')
         | (Inr msgs, w') \<Rightarrow> (Inr (build_result thread_id run_id msgs), w')))"

text \<open>The body of the \<open>try\<close>, lines 73 to 127. \<open>run_id\<close> is the id of the run as created.\<close>

definition query_agent_body ::
  "'s client \<Rightarrow> string \<Rightarrow> string \<Rightarrow> 's world \<Rightarrow> ((exn + dict) \<times> 's world) option" where
  "query_agent_body c agent_id query w =
     (case start_run c agent_id query w of
        (Inl e, w1) \<Rightarrow> Some (Inl e, w1)
      | (Inr (thread_id, run), w1) \<Rightarrow>
          (case poll c thread_id run w1 of
             None \<Rightarrow> None
           | Some (Inl e, w2) \<Rightarrow> Some (Inl e, w2)
           | Some (Inr run', w2) \<Rightarrow> Some (finish c thread_id (run_ident run) run' w2)))"

text \<open>
  Lines 70 to 131: the clause \<open>except Exception\<close> logs the exception and raises it
  again; a raise outside \<open>Exception\<close> passes without a log entry.
\<close>

definition query_agent ::
  "'s client \<Rightarrow> string \<Rightarrow> string \<Rightarrow> 's world \<Rightarrow> ((exn + dict) \<times> 's world) option" where
  "query_agent c agent_id query w =
     (case query_agent_body c agent_id query w of
        None \<Rightarrow> None
      | Some (Inl (Exception e), w') \<Rightarrow>
          Some (Inl (Exception e),
                emit (LogError (''Agent query failed - ID: '' @ agent_id @ '', Error: '' @ e)) w')
      | Some (Inl (BaseException b), w') \<Rightarrow> Some (Inl (BaseException b), w')
      | Some (Inr response, w') \<Rightarrow> Some (Inr response, w'))"

subsection \<open>The tool \<open>bing_search\<close>\<close>

text \<open>The module's global configuration, lines 45 to 47.\<close>

record 's globals =
  AZURE_AI_FOUNDRY_PROJECT_ENDPOINT :: "string option"
  AZURE_AI_FOUNDRY_AGENT_ID :: "string option"
  AI_CLIENT :: "'s client option"

definition configured :: "'s globals \<Rightarrow> bool" where
  "configured g =
     (truthy (AZURE_AI_FOUNDRY_PROJECT_ENDPOINT g) \<and> truthy (AZURE_AI_FOUNDRY_AGENT_ID g))"

text \<open>
  Lines 51 to 67. The construction of the credential and of \<open>AIProjectClient\<close> for an
  endpoint belongs to the platform's library and is the parameter \<open>construct\<close>; it makes
  no remote call. The result is the returned flag, or a raise that \<open>except Exception\<close>
  does not catch, with the globals and the world.
\<close>

definition initialize_agent_client ::
  "(string \<Rightarrow> exn + 's client) \<Rightarrow> 's globals \<Rightarrow> 's world
     \<Rightarrow> (exn + bool) \<times> 's globals \<times> 's world" where
  "initialize_agent_client construct g w =
     (if \<not> configured g then (Inr False, g, w)
      else
        (case AZURE_AI_FOUNDRY_PROJECT_ENDPOINT g of
           None \<Rightarrow> (Inr False, g, w)
         | Some endpoint \<Rightarrow>
             (case construct endpoint of
                Inl (Exception e) \<Rightarrow>
                  (Inr False, g, emit (LogError (''Failed to initialize AIProjectClient: '' @ e)) w)
              | Inl (BaseException b) \<Rightarrow> (Inl (BaseException b), g, w)
              | Inr client \<Rightarrow> (Inr True, g\<lparr>AI_CLIENT := Some client\<rparr>, w))))"

definition not_initialized :: string where
  "not_initialized =
     ''Bing Search service is not initialized. Check AZURE_AI_FOUNDRY_PROJECT_ENDPOINT and AZURE_AI_FOUNDRY_AGENT_ID environment variables.''"

text \<open>
  Lines 153 to 167. The result is the returned dictionary, or the raise that leaves the
  tool, with the globals and the world the call leaves; \<open>None\<close> when the polling loop
  never ends. An agent identifier that is \<open>None\<close> fails the test of line 154 like an
  empty one, so the first case returns the same dictionary. The call of
  \<open>initialize_agent_client\<close> stands outside the \<open>try\<close>.
\<close>

definition bing_search ::
  "(string \<Rightarrow> exn + 's client) \<Rightarrow> string \<Rightarrow> 's globals \<Rightarrow> 's world
     \<Rightarrow> ((exn + dict) \<times> 's globals \<times> 's world) option" where
  "bing_search construct query g w =
     (case AZURE_AI_FOUNDRY_AGENT_ID g of
        None \<Rightarrow> Some (Inr [''error'' \<mapsto> S not_initialized], g, w)
      | Some agent_id \<Rightarrow>
     (if \<not> configured g then Some (Inr [''error'' \<mapsto> S not_initialized], g, w)
      else
        (case (if AI_CLIENT g = None then initialize_agent_client construct g w
               else (Inr True, g, w)) of
           (Inl e, g1, w1) \<Rightarrow> Some (Inl e, g1, w1)
         | (Inr ok, g1, w1) \<Rightarrow>
             (case AI_CLIENT g1 of
                None \<Rightarrow>
                  Some (Inr [''error'' \<mapsto> S ''Failed to initialize Bing Search client.''], g1, w1)
              | Some client \<Rightarrow>
                  (case query_agent client agent_id query w1 of
                     None \<Rightarrow> None
                   | Some (Inr response, w2) \<Rightarrow> Some (Inr response, g1, w2)
                   | Some (Inl (Exception e), w2) \<Rightarrow>
                       Some (Inr [''error'' \<mapsto> S (''Error performing Bing search: '' @ e)], g1,
                             emit (LogError (''Error performing Bing search: '' @ e)) w2)
                   | Some (Inl (BaseException b), w2) \<Rightarrow> Some (Inl (BaseException b), g1, w2))))))"

subsection \<open>Reading an outcome\<close>

text \<open>The trace an outcome of \<open>query_agent\<close> leaves, and the dictionary it returns.\<close>

definition trace_of :: "((exn + dict) \<times> 's world) option \<Rightarrow> event list" where
  "trace_of out = (case out of None \<Rightarrow> [] | Some (r, w) \<Rightarrow> snd w)"

definition response_of :: "((exn + dict) \<times> 's world) option \<Rightarrow> dict" where
  "response_of out = (case out of Some (Inr d, w) \<Rightarrow> d | _ \<Rightarrow> Map.empty)"

definition sleeps :: "event list \<Rightarrow> nat" where
  "sleeps tr = length (filter is_sleep tr)"

definition status_fetches :: "event list \<Rightarrow> nat" where
  "status_fetches tr = length (filter is_status_fetch tr)"

text \<open>The four calls of lines 73 to 80, as they appear in the trace.\<close>

abbreviation started :: "string \<Rightarrow> string \<Rightarrow> string \<Rightarrow> event list" where
  "started agent_id thread_id query \<equiv>
     [GetAgent agent_id, ThreadsCreate, MessagesCreate thread_id USER query,
      RunsCreate thread_id agent_id]"

subsection \<open>A scripted client\<close>

text \<open>
  A stub of the client for concrete runs: every operation gives the scripted answer,
  and the state of the platform is the list of answers \<open>runs.get\<close> has still to give,
  one for each call; when the list is used up the stub raises.
\<close>

record script =
  agent_answer :: "exn + unit"
  thread_answer :: "exn + thread"
  message_answer :: "exn + unit"
  run_answer :: "exn + run"
  list_answer :: "exn + message list"

definition scripted :: "script \<Rightarrow> ((exn + run) list) client" where
  "scripted sc =
     \<lparr> get_agent = (\<lambda>agent_id s. (agent_answer sc, s)),
       threads_create = (\<lambda>s. (thread_answer sc, s)),
       messages_create = (\<lambda>thread_id r content s. (message_answer sc, s)),
       runs_create = (\<lambda>thread_id agent_id s. (run_answer sc, s)),
       runs_get = (\<lambda>thread_id run_id s.
                    (case s of [] \<Rightarrow> (Inl (Exception ''StopAsyncIteration''), [])
                     | a # rest \<Rightarrow> (a, rest))),
       messages_list = (\<lambda>thread_id s. (list_answer sc, s)) \<rparr>"

definition a_run :: "string \<Rightarrow> string \<Rightarrow> run" where
  "a_run i st = \<lparr> run_ident = i, status = st, last_error = ''None'' \<rparr>"

definition a_script :: "string \<Rightarrow> run \<Rightarrow> message list \<Rightarrow> script" where
  "a_script i r msgs =
     \<lparr> agent_answer = Inr (), thread_answer = Inr \<lparr> thread_ident = i \<rparr>,
       message_answer = Inr (), run_answer = Inr r, list_answer = Inr msgs \<rparr>"

subsection \<open>The extraction as the specification words it\<close>

text \<open>
  Each element once, in the order of first occurrence: the specification's
  deduplication, to be compared with \<open>collect_citations\<close>.
\<close>

fun first_seen :: "'a list \<Rightarrow> 'a list" where
  "first_seen [] = []"
| "first_seen (x # xs) = x # first_seen (filter (\<lambda>y. y \<noteq> x) xs)"

text \<open>Lines joined by line breaks, as \<open>"\n".join\<close> does.\<close>

fun newline_join :: "string list \<Rightarrow> string" where
  "newline_join [] = []"
| "newline_join [l] = l"
| "newline_join (l # k # ls) = l @ ''\<newline>'' @ newline_join (k # ls)"

text \<open>
  The Sources section recomputed from the citations alone: a header line followed by
  one bulleted line for each citation.
\<close>

definition sources_section :: "string list \<Rightarrow> string" where
  "sources_section citations =
     newline_join (''## Sources'' # map (\<lambda>citation. ''- '' @ citation) citations)"

subsection \<open>Concrete inputs\<close>

text \<open>Messages, citations and configurations used to run the definitions.\<close>

definition cite_a :: url_citation where
  "cite_a = \<lparr> title = ''Alpha'', url = ''http://a'' \<rparr>"

definition cite_b :: url_citation where
  "cite_b = \<lparr> title = ''Beta'', url = ''http://b'' \<rparr>"

definition answer :: "string list \<Rightarrow> url_citation list \<Rightarrow> message" where
  "answer segs anns = \<lparr> role = AGENT, text_messages = segs, url_citation_annotations = anns \<rparr>"

definition question :: message where
  "question = \<lparr> role = USER, text_messages = [''q''], url_citation_annotations = [] \<rparr>"

definition unset_endpoint :: "((exn + run) list) globals" where
  "unset_endpoint = \<lparr> AZURE_AI_FOUNDRY_PROJECT_ENDPOINT = None,
                       AZURE_AI_FOUNDRY_AGENT_ID = Some ''agent'',
                       AI_CLIENT = Some (scripted (a_script ''t'' (a_run ''r'' ''completed'') [])) \<rparr>"

definition ready :: "((exn + run) list) client \<Rightarrow> ((exn + run) list) globals" where
  "ready c = \<lparr> AZURE_AI_FOUNDRY_PROJECT_ENDPOINT = Some ''https://endpoint'',
               AZURE_AI_FOUNDRY_AGENT_ID = Some ''agent'',
               AI_CLIENT = Some c \<rparr>"

section \<open>Properties\<close>

subsection \<open>Counting events and running the scripted client\<close>

lemma sleeps_simps [simp]:
  "sleeps [] = 0" "sleeps (tr @ tr') = sleeps tr + sleeps tr'"
  "sleeps (Sleep n # tr) = Suc (sleeps tr)" "sleeps (RunsGet a b # tr) = sleeps tr"
  "sleeps (RunsCreate a b # tr) = sleeps tr" "sleeps (GetAgent a # tr) = sleeps tr"
  "sleeps (ThreadsCreate # tr) = sleeps tr" "sleeps (MessagesCreate a r b # tr) = sleeps tr"
  "sleeps (MessagesList a # tr) = sleeps tr" "sleeps (LogError a # tr) = sleeps tr"
  by (simp_all add: sleeps_def is_sleep_def)

lemma status_fetches_simps [simp]:
  "status_fetches [] = 0" "status_fetches (tr @ tr') = status_fetches tr + status_fetches tr'"
  "status_fetches (Sleep n # tr) = status_fetches tr"
  "status_fetches (RunsGet a b # tr) = Suc (status_fetches tr)"
  "status_fetches (RunsCreate a b # tr) = Suc (status_fetches tr)"
  "status_fetches (GetAgent a # tr) = status_fetches tr"
  "status_fetches (ThreadsCreate # tr) = status_fetches tr"
  "status_fetches (MessagesCreate a r b # tr) = status_fetches tr"
  "status_fetches (MessagesList a # tr) = status_fetches tr"
  "status_fetches (LogError a # tr) = status_fetches tr"
  by (simp_all add: status_fetches_def is_status_fetch_def)

lemma scripted_simps [simp]:
  "get_agent (scripted sc) a s = (agent_answer sc, s)"
  "threads_create (scripted sc) s = (thread_answer sc, s)"
  "messages_create (scripted sc) t r q s = (message_answer sc, s)"
  "runs_create (scripted sc) t a s = (run_answer sc, s)"
  "runs_get (scripted sc) t i [] = (Inl (Exception ''StopAsyncIteration''), [])"
  "runs_get (scripted sc) t i (x # xs) = (x, xs)"
  "messages_list (scripted sc) t s = (list_answer sc, s)"
  by (simp_all add: scripted_def)

lemma a_script_simps [simp]:
  "agent_answer (a_script i r msgs) = Inr ()"
  "thread_answer (a_script i r msgs) = Inr \<lparr> thread_ident = i \<rparr>"
  "message_answer (a_script i r msgs) = Inr ()"
  "run_answer (a_script i r msgs) = Inr r"
  "list_answer (a_script i r msgs) = Inr msgs"
  by (simp_all add: a_script_def)

lemma a_run_simps [simp]:
  "run_ident (a_run i st) = i" "status (a_run i st) = st" "last_error (a_run i st) = ''None''"
  by (simp_all add: a_run_def)

lemma sample_simps [simp]:
  "role (answer segs anns) = AGENT" "text_messages (answer segs anns) = segs"
  "url_citation_annotations (answer segs anns) = anns" "role question = USER"
  "render cite_a = ''[Alpha](http://a)''" "render cite_b = ''[Beta](http://b)''"
  by (simp_all add: answer_def question_def cite_a_def cite_b_def render_def)

subsection \<open>The polling loop\<close>

lemma poll_stop: "status run \<notin> set polling \<Longrightarrow> poll c t run w = Some (Inr run, w)"
  by (subst poll.simps) simp

lemma poll_step:
  "status run \<in> set polling \<Longrightarrow> runs_get c t (run_ident run) (fst w) = (Inr run', s') \<Longrightarrow>
   poll c t run w = poll c t run' (s', snd w @ [Sleep 1, RunsGet t (run_ident run)])"
  by (subst poll.simps) (simp add: call_def emit_def)

lemma poll_raise:
  "status run \<in> set polling \<Longrightarrow> runs_get c t (run_ident run) (fst w) = (Inl e, s') \<Longrightarrow>
   poll c t run w = Some (Inl e, (s', snd w @ [Sleep 1, RunsGet t (run_ident run)]))"
  by (subst poll.simps) (simp add: call_def emit_def)

text \<open>
  Whatever the platform answers, a loop that ends has slept once before each
  \<open>runs.get\<close>: the sleeps and the fetches it adds to the trace are equally many.
\<close>

lemma poll_sleeps_fetches:
  "poll c t run w = Some y \<Longrightarrow>
     sleeps (snd (snd y)) + status_fetches (snd w) = status_fetches (snd (snd y)) + sleeps (snd w)"
proof (induction rule: poll.raw_induct [rotated 1, consumes 1])
  case (1 poll c thread_id run w y)
  show ?case
  proof (cases "status run \<in> set polling")
    case False
    with 1(2) show ?thesis by auto
  next
    case True
    obtain r s' where g: "runs_get c thread_id (run_ident run) (fst w) = (r, s')"
      by (cases "runs_get c thread_id (run_ident run) (fst w)")
    show ?thesis
    proof (cases r)
      case (Inl e)
      with 1(2) True g show ?thesis by (auto simp: call_def emit_def)
    next
      case (Inr run')
      with 1(2) True g
      have "poll c thread_id run' (s', snd w @ [Sleep 1, RunsGet thread_id (run_ident run)]) = Some y"
        by (simp add: call_def emit_def)
      from 1(1) [OF this] show ?thesis by simp
    qed
  qed
qed

lemma poll_two:
  assumes "status run0 = ''queued''"
    and "runs_get c t (run_ident run0) s0 = (Inr run1, s1)" and "status run1 = ''in_progress''"
    and "runs_get c t (run_ident run1) s1 = (Inr run2, s2)" and "status run2 = ''completed''"
  shows "poll c t run0 (s0, tr) =
           Some (Inr run2, (s2, tr @ [Sleep 1, RunsGet t (run_ident run0),
                                      Sleep 1, RunsGet t (run_ident run1)]))"
proof -
  have "poll c t run0 (s0, tr) = poll c t run1 (s1, tr @ [Sleep 1, RunsGet t (run_ident run0)])"
    using assms(1,2) poll_step [of run0 c t "(s0, tr)" run1 s1] by (simp add: polling_def)
  also have "\<dots> = poll c t run2 (s2, (tr @ [Sleep 1, RunsGet t (run_ident run0)])
                                        @ [Sleep 1, RunsGet t (run_ident run1)])"
    using assms(3,4) poll_step [of run1 c t "(s1, tr @ [Sleep 1, RunsGet t (run_ident run0)])" run2 s2]
    by (simp add: polling_def)
  also have "\<dots> = Some (Inr run2, (s2, (tr @ [Sleep 1, RunsGet t (run_ident run0)])
                                         @ [Sleep 1, RunsGet t (run_ident run1)]))"
    using assms(5) by (intro poll_stop) (simp add: polling_def)
  finally show ?thesis by simp
qed

lemma poll_scripted_step:
  "status run \<in> set polling \<Longrightarrow>
   poll (scripted sc) t run (Inr r # rest, tr) =
     poll (scripted sc) t r (rest, tr @ [Sleep 1, RunsGet t (run_ident run)])"
  using poll_step [of run "scripted sc" t "(Inr r # rest, tr)" r rest] by simp

lemma poll_scripted_raise:
  "status run \<in> set polling \<Longrightarrow>
   poll (scripted sc) t run (Inl e # rest, tr) =
     Some (Inl e, (rest, tr @ [Sleep 1, RunsGet t (run_ident run)]))"
  using poll_raise [of run "scripted sc" t "(Inl e # rest, tr)" e rest] by simp

subsection \<open>\<open>query_agent\<close> on a run that ends\<close>

text \<open>The four calls that start the run, when none of them raises.\<close>

lemma start_run_ok:
  assumes "get_agent c agent_id s = (Inr u, s1)"
    and "threads_create c s1 = (Inr th, s2)"
    and "messages_create c (thread_ident th) USER query s2 = (Inr u', s3)"
    and "runs_create c (thread_ident th) agent_id s3 = (Inr run0, s4)"
  shows "start_run c agent_id query (s, tr) =
           (Inr (thread_ident th, run0), (s4, tr @ started agent_id (thread_ident th) query))"
  using assms by (simp add: start_run_def call_def Let_def)

lemma start_run_scripted:
  "start_run (scripted (a_script i r msgs)) agent_id query (s, tr) =
     (Inr (i, r), (s, tr @ started agent_id i query))"
  by (simp add: start_run_def call_def)

lemma query_agent_failed:
  assumes "start_run c agent_id query w = (Inr (thread_id, run0), w1)"
    and "poll c thread_id run0 w1 = Some (Inr run1, w2)"
    and "status run1 = ''failed''"
  shows "query_agent c agent_id query w =
           Some (Inr (failure_dict (''Agent run failed: '' @ last_error run1) thread_id (run_ident run0)),
                 emit (LogError (''Agent run failed: '' @ last_error run1)) w2)"
  using assms by (simp add: query_agent_def query_agent_body_def finish_def Let_def)

lemma query_agent_completed:
  assumes "start_run c agent_id query w = (Inr (thread_id, run0), w1)"
    and "poll c thread_id run0 w1 = Some (Inr run1, w2)"
    and "status run1 \<noteq> ''failed''"
    and "messages_list c thread_id (fst w2) = (Inr msgs, s3)"
  shows "query_agent c agent_id query w =
           Some (Inr (build_result thread_id (run_ident run0) msgs),
                 (s3, snd w2 @ [MessagesList thread_id]))"
  using assms by (simp add: query_agent_def query_agent_body_def finish_def call_def)

lemmas run_scripted =
  query_agent_def query_agent_body_def start_run_scripted poll_scripted_step poll_scripted_raise
  poll_stop polling_def finish_def call_def emit_def trace_of_def response_of_def Let_def

subsection \<open>Claims about the polling loop and the failed run\<close>

text \<open>
  Claim C1. The run is created \<open>queued\<close>, the first \<open>runs.get\<close> answers \<open>in_progress\<close>
  and the second \<open>completed\<close>. Then \<open>query_agent\<close> reads three statuses, the one that
  came with the created run and the two it fetched, and sleeps exactly twice, once
  before each \<open>runs.get\<close>; only after the third status does it list the messages and
  build the result. The trace is the whole sequence of its calls.
\<close>

theorem poll_three_statuses:
  assumes "get_agent c agent_id s = (Inr u, s1)"
    and "threads_create c s1 = (Inr th, s2)"
    and "messages_create c (thread_ident th) USER query s2 = (Inr u', s3)"
    and "runs_create c (thread_ident th) agent_id s3 = (Inr run0, s4)"
    and "status run0 = ''queued''"
    and "runs_get c (thread_ident th) (run_ident run0) s4 = (Inr run1, s5)"
    and "status run1 = ''in_progress''"
    and "runs_get c (thread_ident th) (run_ident run1) s5 = (Inr run2, s6)"
    and "status run2 = ''completed''"
    and "messages_list c (thread_ident th) s6 = (Inr msgs, s7)"
  shows "(let tr' = [GetAgent agent_id, ThreadsCreate,
                     MessagesCreate (thread_ident th) USER query,
                     RunsCreate (thread_ident th) agent_id,
                     Sleep 1, RunsGet (thread_ident th) (run_ident run0),
                     Sleep 1, RunsGet (thread_ident th) (run_ident run1),
                     MessagesList (thread_ident th)]
          in query_agent c agent_id query (s, tr) =
               Some (Inr (build_result (thread_ident th) (run_ident run0) msgs), (s7, tr @ tr'))
             \<and> sleeps tr' = 2 \<and> status_fetches tr' = 3)"
proof -
  let ?t = "thread_ident th"
  have p: "poll c ?t run0 (s4, tr @ started agent_id ?t query) =
      Some (Inr run2, (s6, (tr @ started agent_id ?t query)
                           @ [Sleep 1, RunsGet ?t (run_ident run0), Sleep 1, RunsGet ?t (run_ident run1)]))"
    using assms(5-9) by (rule poll_two)
  have "status run2 \<noteq> ''failed''" using assms(9) by simp
  from query_agent_completed [OF start_run_ok [OF assms(1-4)] p this] assms(10)
  show ?thesis by (simp add: Let_def)
qed

theorem poll_three_statuses_witness:
  "status (a_run ''r'' ''queued'') = ''queued''
   \<and> status (a_run ''r'' ''in_progress'') = ''in_progress''
   \<and> status (a_run ''r'' ''completed'') = ''completed''
   \<and> query_agent (scripted (a_script ''t'' (a_run ''r'' ''queued'') [])) ''agent'' ''q''
        ([Inr (a_run ''r'' ''in_progress''), Inr (a_run ''r'' ''completed'')], []) =
      Some (Inr (build_result ''t'' ''r'' []),
            ([], [GetAgent ''agent'', ThreadsCreate, MessagesCreate ''t'' USER ''q'',
                  RunsCreate ''t'' ''agent'', Sleep 1, RunsGet ''t'' ''r'',
                  Sleep 1, RunsGet ''t'' ''r'', MessagesList ''t'']))"
  using poll_three_statuses [where c = "scripted (a_script ''t'' (a_run ''r'' ''queued'') [])"
      and agent_id = "''agent''" and query = "''q''" and u = "()" and u' = "()"
      and th = "\<lparr> thread_ident = ''t'' \<rparr>" and ?run0.0 = "a_run ''r'' ''queued''"
      and ?run1.0 = "a_run ''r'' ''in_progress''" and ?run2.0 = "a_run ''r'' ''completed''"
      and s = "[Inr (a_run ''r'' ''in_progress''), Inr (a_run ''r'' ''completed'')]"
      and ?s1.0 = "[Inr (a_run ''r'' ''in_progress''), Inr (a_run ''r'' ''completed'')]"
      and ?s2.0 = "[Inr (a_run ''r'' ''in_progress''), Inr (a_run ''r'' ''completed'')]"
      and ?s3.0 = "[Inr (a_run ''r'' ''in_progress''), Inr (a_run ''r'' ''completed'')]"
      and ?s4.0 = "[Inr (a_run ''r'' ''in_progress''), Inr (a_run ''r'' ''completed'')]"
      and ?s5.0 = "[Inr (a_run ''r'' ''completed'')]" and ?s6.0 = "[]" and ?s7.0 = "[]"
      and msgs = "[]" and tr = "[]"]
  by (simp add: Let_def)

text \<open>
  Claim C2. The platform issues a non-empty identifier for the thread it creates and
  for the run it creates. When the loop ends with a run whose status is \<open>failed\<close>,
  \<open>query_agent\<close> returns a dictionary with \<open>success\<close> false, the error text
  \<open>Agent run failed: \<close> followed by the last error of the run, which is never empty, the
  identifier of the thread as \<open>threads.create\<close> issued it and the identifier of the run
  as \<open>runs.create\<close> issued it, both non-empty, and no \<open>citations\<close> key.
\<close>

theorem failed_run_result:
  assumes "get_agent c agent_id s = (Inr u, s1)"
    and "threads_create c s1 = (Inr th, s2)"
    and "messages_create c (thread_ident th) USER query s2 = (Inr u', s3)"
    and "runs_create c (thread_ident th) agent_id s3 = (Inr run0, s4)"
    and "poll c (thread_ident th) run0 (s4, tr @ started agent_id (thread_ident th) query) =
           Some (Inr run1, w2)"
    and "status run1 = ''failed''"
    and "thread_ident th \<noteq> []" and "run_ident run0 \<noteq> []"
  shows "(let err = ''Agent run failed: '' @ last_error run1;
              d = failure_dict err (thread_ident th) (run_ident run0)
          in query_agent c agent_id query (s, tr) = Some (Inr d, emit (LogError err) w2)
             \<and> d ''success'' = Some (B False)
             \<and> d ''error'' = Some (S err) \<and> err \<noteq> []
             \<and> (\<exists>t. d ''thread_id'' = Some (S t) \<and> t \<noteq> [] \<and> t = thread_ident th)
             \<and> (\<exists>i. d ''run_id'' = Some (S i) \<and> i \<noteq> [] \<and> i = run_ident run0)
             \<and> d ''citations'' = None)"
  using query_agent_failed [OF start_run_ok [OF assms(1-4)] assms(5,6)] assms(7,8)
  by (simp add: Let_def failure_dict_def)

theorem failed_run_result_witness:
  "query_agent (scripted (a_script ''thread_0123456789'' (a_run ''run_0123456789'' ''queued'') []))
      ''agent'' ''q'' ([Inr (a_run ''run_0123456789'' ''failed'')], []) =
     Some (Inr (failure_dict ''Agent run failed: None'' ''thread_0123456789'' ''run_0123456789''),
           ([], [GetAgent ''agent'', ThreadsCreate, MessagesCreate ''thread_0123456789'' USER ''q'',
                 RunsCreate ''thread_0123456789'' ''agent'',
                 Sleep 1, RunsGet ''thread_0123456789'' ''run_0123456789'',
                 LogError ''Agent run failed: None'']))
   \<and> failure_dict ''Agent run failed: None'' ''thread_0123456789'' ''run_0123456789'' ''thread_id'' =
       Some (S ''thread_0123456789'')
   \<and> failure_dict ''Agent run failed: None'' ''thread_0123456789'' ''run_0123456789'' ''run_id'' =
       Some (S ''run_0123456789'')"
  using failed_run_result [where c = "scripted (a_script ''thread_0123456789'' (a_run ''run_0123456789'' ''queued'') [])"
      and agent_id = "''agent''" and query = "''q''" and u = "()" and u' = "()"
      and th = "\<lparr> thread_ident = ''thread_0123456789'' \<rparr>"
      and ?run0.0 = "a_run ''run_0123456789'' ''queued''"
      and ?run1.0 = "a_run ''run_0123456789'' ''failed''"
      and s = "[Inr (a_run ''run_0123456789'' ''failed'')]"
      and ?s1.0 = "[Inr (a_run ''run_0123456789'' ''failed'')]"
      and ?s2.0 = "[Inr (a_run ''run_0123456789'' ''failed'')]"
      and ?s3.0 = "[Inr (a_run ''run_0123456789'' ''failed'')]"
      and ?s4.0 = "[Inr (a_run ''run_0123456789'' ''failed'')]"
      and tr = "[]"
      and ?w2.0 = "([], [GetAgent ''agent'', ThreadsCreate, MessagesCreate ''thread_0123456789'' USER ''q'',
                 RunsCreate ''thread_0123456789'' ''agent'',
                 Sleep 1, RunsGet ''thread_0123456789'' ''run_0123456789''])"]
  by (simp add: Let_def poll_scripted_step poll_stop polling_def emit_def)

text \<open>
  Claim C10. The agent lookup is the first remote call. When it raises, as it does for
  an identifier no agent has, \<open>query_agent\<close> raises the same exception, after logging it
  when it is an \<open>Exception\<close>: the lookup is the only remote call made, so no thread,
  message or run is created, and the platform is left in the state the failed lookup
  left it.
\<close>

theorem unknown_agent_no_thread:
  assumes "get_agent c agent_id (fst w) = (Inl e, s')"
  shows "query_agent c agent_id query w =
           Some (Inl e, (s', snd w @ GetAgent agent_id #
                   (case e of
                      Exception m \<Rightarrow>
                        [LogError (''Agent query failed - ID: '' @ agent_id @ '', Error: '' @ m)]
                    | BaseException b \<Rightarrow> [])))"
  using assms
  by (cases e) (simp_all add: query_agent_def query_agent_body_def start_run_def call_def emit_def)

theorem unknown_agent_no_thread_witness:
  "query_agent (scripted ((a_script ''t'' (a_run ''r'' ''queued'') [])\<lparr>agent_answer := Inl (Exception ''Not Found'')\<rparr>))
      ''ghost'' ''q'' ([], []) =
     Some (Inl (Exception ''Not Found''),
           ([], [GetAgent ''ghost'', LogError ''Agent query failed - ID: ghost, Error: Not Found'']))"
  using unknown_agent_no_thread [of "scripted ((a_script ''t'' (a_run ''r'' ''queued'') [])\<lparr>agent_answer := Inl (Exception ''Not Found'')\<rparr>)"
      "''ghost''" "([], [])" "Exception ''Not Found''" "[]" "''q''"]
  by simp

subsection \<open>Claims about the tool \<open>bing_search\<close>\<close>

lemma not_initialized_mentions: "sublist ''not initialized'' not_initialized"
proof -
  have "not_initialized = ''Bing Search service is '' @ ''not initialized'' @
          ''. Check AZURE_AI_FOUNDRY_PROJECT_ENDPOINT and AZURE_AI_FOUNDRY_AGENT_ID environment variables.''"
    by (simp add: not_initialized_def)
  then show ?thesis unfolding sublist_def by blast
qed

text \<open>
  Claim C3. When the endpoint or the agent identifier is unset (\<open>None\<close>, or empty),
  \<open>bing_search\<close> returns at once the dictionary whose only key is \<open>error\<close>, with a text
  that contains \<open>not initialized\<close>; the globals and the world are as before, so the
  trace has no new event and no remote call was made.
\<close>

theorem not_configured_no_remote_call:
  assumes "\<not> truthy (AZURE_AI_FOUNDRY_PROJECT_ENDPOINT g) \<or> \<not> truthy (AZURE_AI_FOUNDRY_AGENT_ID g)"
  shows "bing_search construct query g w = Some (Inr [''error'' \<mapsto> S not_initialized], g, w)
         \<and> sublist ''not initialized'' not_initialized"
  using assms not_initialized_mentions
  by (auto simp: bing_search_def configured_def split: option.splits)

theorem not_configured_no_remote_call_witness:
  "\<not> truthy (AZURE_AI_FOUNDRY_PROJECT_ENDPOINT unset_endpoint)
   \<and> bing_search (\<lambda>endpoint. Inl (Exception ''unused'')) ''q'' unset_endpoint ([], []) =
       Some (Inr [''error'' \<mapsto> S not_initialized], unset_endpoint, ([], []))"
  using not_configured_no_remote_call [of unset_endpoint "\<lambda>endpoint. Inl (Exception ''unused'')" "''q''" "([], [])"]
  by (simp add: unset_endpoint_def truthy_def)

text \<open>The call of lines 73 to 80 that raises ends the sequence: no later call is made.\<close>

lemma start_run_thread_raises:
  assumes "get_agent c agent_id s = (Inr u, s1)"
    and "threads_create c s1 = (Inl e, sx)"
  shows "start_run c agent_id query (s, tr) = (Inl e, (sx, tr @ [GetAgent agent_id, ThreadsCreate]))"
  using assms by (simp add: start_run_def call_def)

lemma start_run_message_raises:
  assumes "get_agent c agent_id s = (Inr u, s1)"
    and "threads_create c s1 = (Inr th, s2)"
    and "messages_create c (thread_ident th) USER query s2 = (Inl e, sx)"
  shows "start_run c agent_id query (s, tr) =
           (Inl e, (sx, tr @ [GetAgent agent_id, ThreadsCreate,
                              MessagesCreate (thread_ident th) USER query]))"
  using assms by (simp add: start_run_def call_def Let_def)

lemma start_run_run_raises:
  assumes "get_agent c agent_id s = (Inr u, s1)"
    and "threads_create c s1 = (Inr th, s2)"
    and "messages_create c (thread_ident th) USER query s2 = (Inr u', s3)"
    and "runs_create c (thread_ident th) agent_id s3 = (Inl e, sx)"
  shows "start_run c agent_id query (s, tr) =
           (Inl e, (sx, tr @ started agent_id (thread_ident th) query))"
  using assms by (simp add: start_run_def call_def Let_def)

text \<open>What \<open>query_agent\<close> raises when the start or the loop raises an \<open>Exception\<close>.\<close>

lemma query_agent_start_raises:
  assumes "start_run c agent_id query w = (Inl (Exception e), w1)"
  shows "query_agent c agent_id query w =
           Some (Inl (Exception e),
                 (fst w1, snd w1 @ [LogError (''Agent query failed - ID: '' @ agent_id @ '', Error: '' @ e)]))"
  using assms by (simp add: query_agent_def query_agent_body_def emit_def)

lemma query_agent_poll_raises:
  assumes "start_run c agent_id query w = (Inr (thread_id, run0), w1)"
    and "poll c thread_id run0 w1 = Some (Inl (Exception e), w2)"
  shows "query_agent c agent_id query w =
           Some (Inl (Exception e),
                 (fst w2, snd w2 @ [LogError (''Agent query failed - ID: '' @ agent_id @ '', Error: '' @ e)]))"
  using assms by (simp add: query_agent_def query_agent_body_def emit_def)

text \<open>The tool once the configuration and the client are in place.\<close>

lemma bing_search_ready:
  assumes "configured g" and "AI_CLIENT g = Some c" and "AZURE_AI_FOUNDRY_AGENT_ID g = Some agent_id"
  shows "bing_search construct query g w =
          (case query_agent c agent_id query w of
             None \<Rightarrow> None
           | Some (Inr response, w2) \<Rightarrow> Some (Inr response, g, w2)
           | Some (Inl (Exception e), w2) \<Rightarrow>
               Some (Inr [''error'' \<mapsto> S (''Error performing Bing search: '' @ e)], g,
                     emit (LogError (''Error performing Bing search: '' @ e)) w2)
           | Some (Inl (BaseException b), w2) \<Rightarrow> Some (Inl (BaseException b), g, w2))"
  using assms by (simp add: bing_search_def)

lemma bing_search_exception:
  assumes "configured g" and "AI_CLIENT g = Some c" and "AZURE_AI_FOUNDRY_AGENT_ID g = Some agent_id"
    and "query_agent c agent_id query w = Some (Inl (Exception e), (sx, tr'))"
  shows "bing_search construct query g w =
           Some (Inr [''error'' \<mapsto> S (''Error performing Bing search: '' @ e)], g,
                 (sx, tr' @ [LogError (''Error performing Bing search: '' @ e)]))"
  using bing_search_ready [OF assms(1-3), of construct query w] assms(4) by (simp add: emit_def)

text \<open>
  A raise outside \<open>Exception\<close>, such as a cancellation that arrives at an awaited call,
  is caught by neither clause: it leaves the tool, and nothing is logged.
\<close>

lemma bing_search_base_exception:
  assumes "configured g" and "AI_CLIENT g = Some c" and "AZURE_AI_FOUNDRY_AGENT_ID g = Some agent_id"
    and "get_agent c agent_id s = (Inr u, s1)"
    and "threads_create c s1 = (Inl (BaseException b), sx)"
  shows "bing_search construct query g (s, tr) =
           Some (Inl (BaseException b), g, (sx, tr @ [GetAgent agent_id, ThreadsCreate]))"
  using bing_search_ready [OF assms(1-3), of construct query "(s, tr)"]
    start_run_thread_raises [OF assms(4,5), of query tr]
  by (simp add: query_agent_def query_agent_body_def)

lemma search_first_fetch_raises:
  assumes "configured g" and "AI_CLIENT g = Some c" and "AZURE_AI_FOUNDRY_AGENT_ID g = Some agent_id"
    and "start_run c agent_id query w = (Inr (thread_id, run0), (s4, tr4))"
    and "status run0 \<in> set polling"
    and "runs_get c thread_id (run_ident run0) s4 = (Inl (Exception e), sx)"
  shows "bing_search construct query g w =
           Some (Inr [''error'' \<mapsto> S (''Error performing Bing search: '' @ e)], g,
                 (sx, tr4 @ [Sleep 1, RunsGet thread_id (run_ident run0)]
                          @ [LogError (''Agent query failed - ID: '' @ agent_id @ '', Error: '' @ e),
                             LogError (''Error performing Bing search: '' @ e)]))"
proof -
  have "poll c thread_id run0 (s4, tr4) =
          Some (Inl (Exception e), (sx, tr4 @ [Sleep 1, RunsGet thread_id (run_ident run0)]))"
    using poll_raise [of run0 c thread_id "(s4, tr4)" "Exception e" sx] assms(5,6) by simp
  from query_agent_poll_raises [OF assms(4) this]
  show ?thesis using bing_search_exception [OF assms(1-3), of query w e sx] by simp
qed

lemma search_failed_run:
  assumes "configured g" and "AI_CLIENT g = Some c" and "AZURE_AI_FOUNDRY_AGENT_ID g = Some agent_id"
    and "start_run c agent_id query w = (Inr (thread_id, run0), w1)"
    and "poll c thread_id run0 w1 = Some (Inr run1, w2)"
    and "status run1 = ''failed''"
  shows "bing_search construct query g w =
           Some (Inr (failure_dict (''Agent run failed: '' @ last_error run1) thread_id (run_ident run0)),
                 g, emit (LogError (''Agent run failed: '' @ last_error run1)) w2)"
  using bing_search_ready [OF assms(1-3), of construct query w] query_agent_failed [OF assms(4-6)]
  by simp

text \<open>
  Claim C9. The configuration and the client are in place and the agent is found. When the
  creation of the thread, the post of the message, the creation of the run or a status
  fetch raises an \<open>Exception\<close> with text \<open>e\<close>, \<open>bing_search\<close> returns the dictionary
  whose only key is \<open>error\<close>, with \<open>e\<close> in its text, so without \<open>thread_id\<close> or
  \<open>run_id\<close>. The trace is given whole: the calls made up to the one that raised, each
  once, then the two log entries, so no call is tried again and the tool returns a
  value. When instead the loop ends with a run the platform reports as \<open>failed\<close>, the
  tool returns the dictionary of the failed run, and that one has both identifiers.
\<close>

theorem remote_exception_payload:
  assumes "configured g" and "AI_CLIENT g = Some c" and "AZURE_AI_FOUNDRY_AGENT_ID g = Some agent_id"
    and "get_agent c agent_id s = (Inr u, s1)"
  shows "(let tid = thread_ident th;
              logs = [LogError (''Agent query failed - ID: '' @ agent_id @ '', Error: '' @ e),
                      LogError (''Error performing Bing search: '' @ e)];
              payload = [''error'' \<mapsto> S (''Error performing Bing search: '' @ e)];
              err = ''Agent run failed: '' @ last_error run1
          in dom payload = {''error''}
           \<and> (threads_create c s1 = (Inl (Exception e), sx) \<longrightarrow>
                 bing_search construct query g (s, tr) =
                   Some (Inr payload, g, (sx, tr @ [GetAgent agent_id, ThreadsCreate] @ logs)))
           \<and> (threads_create c s1 = (Inr th, s2) \<longrightarrow>
                (messages_create c tid USER query s2 = (Inl (Exception e), sx) \<longrightarrow>
                   bing_search construct query g (s, tr) =
                     Some (Inr payload, g,
                           (sx, tr @ [GetAgent agent_id, ThreadsCreate, MessagesCreate tid USER query] @ logs)))
              \<and> (messages_create c tid USER query s2 = (Inr u', s3) \<longrightarrow>
                  (runs_create c tid agent_id s3 = (Inl (Exception e), sx) \<longrightarrow>
                     bing_search construct query g (s, tr) =
                       Some (Inr payload, g, (sx, tr @ started agent_id tid query @ logs)))
                \<and> (runs_create c tid agent_id s3 = (Inr run0, s4) \<longrightarrow>
                    (status run0 \<in> set polling
                       \<and> runs_get c tid (run_ident run0) s4 = (Inl (Exception e), sx) \<longrightarrow>
                       bing_search construct query g (s, tr) =
                         Some (Inr payload, g,
                               (sx, tr @ started agent_id tid query
                                       @ [Sleep 1, RunsGet tid (run_ident run0)] @ logs)))
                  \<and> (poll c tid run0 (s4, tr @ started agent_id tid query) =
                         Some (Inl (Exception e), (sx, tr')) \<longrightarrow>
                       bing_search construct query g (s, tr) = Some (Inr payload, g, (sx, tr' @ logs)))
                  \<and> (poll c tid run0 (s4, tr @ started agent_id tid query) = Some (Inr run1, w2)
                       \<and> status run1 = ''failed'' \<longrightarrow>
                       bing_search construct query g (s, tr) =
                         Some (Inr (failure_dict err tid (run_ident run0)), g, emit (LogError err) w2)
                       \<and> failure_dict err tid (run_ident run0) ''thread_id'' = Some (S tid)
                       \<and> failure_dict err tid (run_ident run0) ''run_id'' = Some (S (run_ident run0)))))))"
proof -
  note ready = assms(1-3)
  have thread: "bing_search construct query g (s, tr) =
      Some (Inr [''error'' \<mapsto> S (''Error performing Bing search: '' @ e)], g,
            (sx, tr @ [GetAgent agent_id, ThreadsCreate]
                 @ [LogError (''Agent query failed - ID: '' @ agent_id @ '', Error: '' @ e),
                    LogError (''Error performing Bing search: '' @ e)]))"
    if "threads_create c s1 = (Inl (Exception e), sx)"
    using bing_search_exception [OF ready, of query "(s, tr)" e sx]
      query_agent_start_raises [OF start_run_thread_raises [OF assms(4) that, of query tr]]
    by simp
  have message: "bing_search construct query g (s, tr) =
      Some (Inr [''error'' \<mapsto> S (''Error performing Bing search: '' @ e)], g,
            (sx, tr @ [GetAgent agent_id, ThreadsCreate, MessagesCreate (thread_ident th) USER query]
                 @ [LogError (''Agent query failed - ID: '' @ agent_id @ '', Error: '' @ e),
                    LogError (''Error performing Bing search: '' @ e)]))"
    if "threads_create c s1 = (Inr th, s2)"
      and "messages_create c (thread_ident th) USER query s2 = (Inl (Exception e), sx)"
    using bing_search_exception [OF ready, of query "(s, tr)" e sx]
      query_agent_start_raises [OF start_run_message_raises [OF assms(4) that, of tr]]
    by simp
  have run: "bing_search construct query g (s, tr) =
      Some (Inr [''error'' \<mapsto> S (''Error performing Bing search: '' @ e)], g,
            (sx, tr @ started agent_id (thread_ident th) query
                 @ [LogError (''Agent query failed - ID: '' @ agent_id @ '', Error: '' @ e),
                    LogError (''Error performing Bing search: '' @ e)]))"
    if "threads_create c s1 = (Inr th, s2)"
      and "messages_create c (thread_ident th) USER query s2 = (Inr u', s3)"
      and "runs_create c (thread_ident th) agent_id s3 = (Inl (Exception e), sx)"
    using bing_search_exception [OF ready, of query "(s, tr)" e sx]
      query_agent_start_raises [OF start_run_run_raises [OF assms(4) that, of tr]]
    by simp
  have fetch: "bing_search construct query g (s, tr) =
      Some (Inr [''error'' \<mapsto> S (''Error performing Bing search: '' @ e)], g,
            (sx, tr @ started agent_id (thread_ident th) query
                 @ [Sleep 1, RunsGet (thread_ident th) (run_ident run0)]
                 @ [LogError (''Agent query failed - ID: '' @ agent_id @ '', Error: '' @ e),
                    LogError (''Error performing Bing search: '' @ e)]))"
    if "threads_create c s1 = (Inr th, s2)"
      and "messages_create c (thread_ident th) USER query s2 = (Inr u', s3)"
      and "runs_create c (thread_ident th) agent_id s3 = (Inr run0, s4)"
      and "status run0 \<in> set polling"
      and "runs_get c (thread_ident th) (run_ident run0) s4 = (Inl (Exception e), sx)"
    using search_first_fetch_raises [OF ready start_run_ok [OF assms(4) that(1-3), of tr] that(4,5),
        of construct]
    by simp
  have later: "bing_search construct query g (s, tr) =
      Some (Inr [''error'' \<mapsto> S (''Error performing Bing search: '' @ e)], g,
            (sx, tr' @ [LogError (''Agent query failed - ID: '' @ agent_id @ '', Error: '' @ e),
                        LogError (''Error performing Bing search: '' @ e)]))"
    if "threads_create c s1 = (Inr th, s2)"
      and "messages_create c (thread_ident th) USER query s2 = (Inr u', s3)"
      and "runs_create c (thread_ident th) agent_id s3 = (Inr run0, s4)"
      and "poll c (thread_ident th) run0 (s4, tr @ started agent_id (thread_ident th) query) =
             Some (Inl (Exception e), (sx, tr'))"
    using bing_search_exception [OF ready, of query "(s, tr)" e sx]
      query_agent_poll_raises [OF start_run_ok [OF assms(4) that(1-3), of tr] that(4)]
    by simp
  have failed: "bing_search construct query g (s, tr) =
      Some (Inr (failure_dict (''Agent run failed: '' @ last_error run1) (thread_ident th) (run_ident run0)),
            g, emit (LogError (''Agent run failed: '' @ last_error run1)) w2)"
    if "threads_create c s1 = (Inr th, s2)"
      and "messages_create c (thread_ident th) USER query s2 = (Inr u', s3)"
      and "runs_create c (thread_ident th) agent_id s3 = (Inr run0, s4)"
      and "poll c (thread_ident th) run0 (s4, tr @ started agent_id (thread_ident th) query) =
             Some (Inr run1, w2)"
      and "status run1 = ''failed''"
    using search_failed_run [OF ready start_run_ok [OF assms(4) that(1-3), of tr] that(4,5), of construct]
    by simp
  have ids: "failure_dict x (thread_ident th) (run_ident run0) ''thread_id'' = Some (S (thread_ident th))
      \<and> failure_dict x (thread_ident th) (run_ident run0) ''run_id'' = Some (S (run_ident run0))" for x
    by (simp add: failure_dict_def)
  show ?thesis
    unfolding Let_def using thread message run fetch later failed ids by simp
qed

theorem remote_exception_payload_witness:
  "bing_search (\<lambda>endpoint. Inl (Exception ''unused'')) ''q''
      (ready (scripted ((a_script ''t'' (a_run ''r'' ''queued'') [])\<lparr>thread_answer := Inl (Exception ''boom'')\<rparr>)))
      ([], []) =
     Some (Inr [''error'' \<mapsto> S ''Error performing Bing search: boom''],
           ready (scripted ((a_script ''t'' (a_run ''r'' ''queued'') [])\<lparr>thread_answer := Inl (Exception ''boom'')\<rparr>)),
           ([], [GetAgent ''agent'', ThreadsCreate,
                 LogError ''Agent query failed - ID: agent, Error: boom'',
                 LogError ''Error performing Bing search: boom'']))
   \<and> bing_search (\<lambda>endpoint. Inl (Exception ''unused'')) ''q''
      (ready (scripted ((a_script ''t'' (a_run ''r'' ''queued'') [])\<lparr>message_answer := Inl (Exception ''boom'')\<rparr>)))
      ([], []) =
     Some (Inr [''error'' \<mapsto> S ''Error performing Bing search: boom''],
           ready (scripted ((a_script ''t'' (a_run ''r'' ''queued'') [])\<lparr>message_answer := Inl (Exception ''boom'')\<rparr>)),
           ([], [GetAgent ''agent'', ThreadsCreate, MessagesCreate ''t'' USER ''q'',
                 LogError ''Agent query failed - ID: agent, Error: boom'',
                 LogError ''Error performing Bing search: boom'']))
   \<and> bing_search (\<lambda>endpoint. Inl (Exception ''unused'')) ''q''
      (ready (scripted ((a_script ''t'' (a_run ''r'' ''queued'') [])\<lparr>run_answer := Inl (Exception ''boom'')\<rparr>)))
      ([], []) =
     Some (Inr [''error'' \<mapsto> S ''Error performing Bing search: boom''],
           ready (scripted ((a_script ''t'' (a_run ''r'' ''queued'') [])\<lparr>run_answer := Inl (Exception ''boom'')\<rparr>)),
           ([], [GetAgent ''agent'', ThreadsCreate, MessagesCreate ''t'' USER ''q'',
                 RunsCreate ''t'' ''agent'',
                 LogError ''Agent query failed - ID: agent, Error: boom'',
                 LogError ''Error performing Bing search: boom'']))
   \<and> bing_search (\<lambda>endpoint. Inl (Exception ''unused'')) ''q''
      (ready (scripted (a_script ''t'' (a_run ''r'' ''queued'') []))) ([Inl (Exception ''boom'')], []) =
     Some (Inr [''error'' \<mapsto> S ''Error performing Bing search: boom''],
           ready (scripted (a_script ''t'' (a_run ''r'' ''queued'') [])),
           ([], [GetAgent ''agent'', ThreadsCreate, MessagesCreate ''t'' USER ''q'',
                 RunsCreate ''t'' ''agent'', Sleep 1, RunsGet ''t'' ''r'',
                 LogError ''Agent query failed - ID: agent, Error: boom'',
                 LogError ''Error performing Bing search: boom'']))
   \<and> bing_search (\<lambda>endpoint. Inl (Exception ''unused'')) ''q''
      (ready (scripted (a_script ''t'' (a_run ''r'' ''queued'') []))) ([Inr (a_run ''r'' ''failed'')], []) =
     Some (Inr (failure_dict ''Agent run failed: None'' ''t'' ''r''),
           ready (scripted (a_script ''t'' (a_run ''r'' ''queued'') [])),
           ([], [GetAgent ''agent'', ThreadsCreate, MessagesCreate ''t'' USER ''q'',
                 RunsCreate ''t'' ''agent'', Sleep 1, RunsGet ''t'' ''r'',
                 LogError ''Agent run failed: None'']))
   \<and> failure_dict ''Agent run failed: None'' ''t'' ''r'' ''thread_id'' = Some (S ''t'')
   \<and> failure_dict ''Agent run failed: None'' ''t'' ''r'' ''run_id'' = Some (S ''r'')"
proof -
  let ?sc = "a_script ''t'' (a_run ''r'' ''queued'') []"
  let ?K = "\<lambda>endpoint::string. (Inl (Exception ''unused'') :: exn + ((exn + run) list) client)"
  have cfg: "configured (ready c)" for c by (simp add: ready_def configured_def truthy_def)
  have cl: "AI_CLIENT (ready c) = Some c" for c by (simp add: ready_def)
  have ag: "AZURE_AI_FOUNDRY_AGENT_ID (ready c) = Some ''agent''" for c by (simp add: ready_def)
  have ga: "get_agent (scripted (?sc\<lparr>thread_answer := Inl (Exception ''boom'')\<rparr>)) ''agent'' [] = (Inr (), [])"
    "get_agent (scripted (?sc\<lparr>message_answer := Inl (Exception ''boom'')\<rparr>)) ''agent'' [] = (Inr (), [])"
    "get_agent (scripted (?sc\<lparr>run_answer := Inl (Exception ''boom'')\<rparr>)) ''agent'' [] = (Inr (), [])"
    "get_agent (scripted ?sc) ''agent'' [Inl (Exception ''boom'')] = (Inr (), [Inl (Exception ''boom'')])"
    "get_agent (scripted ?sc) ''agent'' [Inr (a_run ''r'' ''failed'')] = (Inr (), [Inr (a_run ''r'' ''failed'')])"
    by (simp_all add: a_script_def)
  have w1: "bing_search ?K ''q'' (ready (scripted (?sc\<lparr>thread_answer := Inl (Exception ''boom'')\<rparr>))) ([], []) =
     Some (Inr [''error'' \<mapsto> S ''Error performing Bing search: boom''],
           ready (scripted (?sc\<lparr>thread_answer := Inl (Exception ''boom'')\<rparr>)),
           ([], [GetAgent ''agent'', ThreadsCreate,
                 LogError ''Agent query failed - ID: agent, Error: boom'',
                 LogError ''Error performing Bing search: boom'']))"
    using remote_exception_payload [OF cfg cl ag ga(1), where e = "''boom''" and sx = "[]"
        and tr = "[]" and construct = ?K and query = "''q''"]
    by (simp add: Let_def)
  have w2: "bing_search ?K ''q'' (ready (scripted (?sc\<lparr>message_answer := Inl (Exception ''boom'')\<rparr>))) ([], []) =
     Some (Inr [''error'' \<mapsto> S ''Error performing Bing search: boom''],
           ready (scripted (?sc\<lparr>message_answer := Inl (Exception ''boom'')\<rparr>)),
           ([], [GetAgent ''agent'', ThreadsCreate, MessagesCreate ''t'' USER ''q'',
                 LogError ''Agent query failed - ID: agent, Error: boom'',
                 LogError ''Error performing Bing search: boom'']))"
    using remote_exception_payload [OF cfg cl ag ga(2), where e = "''boom''" and sx = "[]"
        and tr = "[]" and construct = ?K and query = "''q''"
        and th = "\<lparr> thread_ident = ''t'' \<rparr>" and ?s2.0 = "[]"]
    by (simp add: Let_def a_script_def)
  have w3: "bing_search ?K ''q'' (ready (scripted (?sc\<lparr>run_answer := Inl (Exception ''boom'')\<rparr>))) ([], []) =
     Some (Inr [''error'' \<mapsto> S ''Error performing Bing search: boom''],
           ready (scripted (?sc\<lparr>run_answer := Inl (Exception ''boom'')\<rparr>)),
           ([], [GetAgent ''agent'', ThreadsCreate, MessagesCreate ''t'' USER ''q'',
                 RunsCreate ''t'' ''agent'',
                 LogError ''Agent query failed - ID: agent, Error: boom'',
                 LogError ''Error performing Bing search: boom'']))"
    using remote_exception_payload [OF cfg cl ag ga(3), where e = "''boom''" and sx = "[]"
        and tr = "[]" and construct = ?K and query = "''q''"
        and th = "\<lparr> thread_ident = ''t'' \<rparr>" and ?s2.0 = "[]"
        and u' = "()" and ?s3.0 = "[]"]
    by (simp add: Let_def a_script_def)
  have w4: "bing_search ?K ''q'' (ready (scripted ?sc)) ([Inl (Exception ''boom'')], []) =
     Some (Inr [''error'' \<mapsto> S ''Error performing Bing search: boom''],
           ready (scripted ?sc),
           ([], [GetAgent ''agent'', ThreadsCreate, MessagesCreate ''t'' USER ''q'',
                 RunsCreate ''t'' ''agent'', Sleep 1, RunsGet ''t'' ''r'',
                 LogError ''Agent query failed - ID: agent, Error: boom'',
                 LogError ''Error performing Bing search: boom'']))"
    using remote_exception_payload [OF cfg cl ag ga(4), where e = "''boom''" and sx = "[]"
        and tr = "[]" and construct = ?K and query = "''q''"
        and th = "\<lparr> thread_ident = ''t'' \<rparr>" and ?s2.0 = "[Inl (Exception ''boom'')]"
        and u' = "()" and ?s3.0 = "[Inl (Exception ''boom'')]"
        and ?run0.0 = "a_run ''r'' ''queued''" and ?s4.0 = "[Inl (Exception ''boom'')]"]
    by (simp add: Let_def polling_def)
  have w5: "bing_search ?K ''q'' (ready (scripted ?sc)) ([Inr (a_run ''r'' ''failed'')], []) =
     Some (Inr (failure_dict ''Agent run failed: None'' ''t'' ''r''),
           ready (scripted ?sc),
           ([], [GetAgent ''agent'', ThreadsCreate, MessagesCreate ''t'' USER ''q'',
                 RunsCreate ''t'' ''agent'', Sleep 1, RunsGet ''t'' ''r'',
                 LogError ''Agent run failed: None'']))
     \<and> failure_dict ''Agent run failed: None'' ''t'' ''r'' ''thread_id'' = Some (S ''t'')
     \<and> failure_dict ''Agent run failed: None'' ''t'' ''r'' ''run_id'' = Some (S ''r'')"
    using remote_exception_payload [OF cfg cl ag ga(5), where e = "''boom''" and sx = "[]"
        and tr = "[]" and construct = ?K and query = "''q''"
        and th = "\<lparr> thread_ident = ''t'' \<rparr>" and ?s2.0 = "[Inr (a_run ''r'' ''failed'')]"
        and u' = "()" and ?s3.0 = "[Inr (a_run ''r'' ''failed'')]"
        and ?run0.0 = "a_run ''r'' ''queued''" and ?s4.0 = "[Inr (a_run ''r'' ''failed'')]"
        and ?run1.0 = "a_run ''r'' ''failed''"
        and ?w2.0 = "([], [GetAgent ''agent'', ThreadsCreate, MessagesCreate ''t'' USER ''q'',
                 RunsCreate ''t'' ''agent'', Sleep 1, RunsGet ''t'' ''r''])"]
    by (simp add: Let_def poll_scripted_step poll_stop polling_def emit_def)
  from w1 w2 w3 w4 w5 show ?thesis by blast
qed

subsection \<open>The extraction\<close>

lemma fold_select:
  "fold (\<lambda>msg response_message. if role msg = AGENT then Some msg else response_message) msgs acc =
     (case filter (\<lambda>m. role m = AGENT) msgs of [] \<Rightarrow> acc | ms \<Rightarrow> Some (last ms))"
  by (induction msgs arbitrary: acc) (auto split: list.splits)

lemma select_response_filter:
  "select_response msgs =
     (case filter (\<lambda>m. role m = AGENT) msgs of [] \<Rightarrow> None | ms \<Rightarrow> Some (last ms))"
  by (simp add: select_response_def fold_select)

lemma select_response_nonempty:
  "filter (\<lambda>m. role m = AGENT) msgs \<noteq> [] \<Longrightarrow>
   select_response msgs = Some (last (filter (\<lambda>m. role m = AGENT) msgs))"
  unfolding select_response_filter by (cases "filter (\<lambda>m. role m = AGENT) msgs") simp_all

lemma select_response_last:
  assumes "role m = AGENT" and "\<forall>x \<in> set post. role x \<noteq> AGENT"
  shows "select_response (pre @ m # post) = Some m"
proof -
  have "filter (\<lambda>m. role m = AGENT) post = []" using assms(2) by (simp add: filter_empty_conv)
  then have "filter (\<lambda>m. role m = AGENT) (pre @ m # post) = filter (\<lambda>m. role m = AGENT) pre @ [m]"
    using assms(1) by simp
  then show ?thesis using select_response_nonempty [of "pre @ m # post"] by simp
qed

lemma select_response_none:
  "(\<forall>x \<in> set msgs. role x \<noteq> AGENT) \<Longrightarrow> select_response msgs = None"
  by (simp add: select_response_filter filter_empty_conv split: list.splits)

lemma fold_join:
  "fold (\<lambda>t result. result @ t @ ''\<newline>'') segs acc = acc @ concat (map (\<lambda>t. t @ ''\<newline>'') segs)"
  by (induction segs arbitrary: acc) auto

lemma join_text_concat: "join_text segs = concat (map (\<lambda>t. t @ ''\<newline>'') segs)"
  by (simp add: join_text_def fold_join)

lemma join_text_newline_join:
  "segs \<noteq> [] \<Longrightarrow> join_text segs = newline_join segs @ ''\<newline>''"
  unfolding join_text_concat by (induction segs rule: newline_join.induct) simp_all

lemma fold_dedupe:
  "fold (\<lambda>c cs. if c \<notin> set cs then cs @ [c] else cs) xs acc =
     acc @ first_seen (filter (\<lambda>c. c \<notin> set acc) xs)"
proof (induction xs arbitrary: acc)
  case Nil
  then show ?case by simp
next
  case (Cons x xs)
  have eq: "filter (\<lambda>y. y \<noteq> x) (filter (\<lambda>c. c \<notin> set acc) xs) = filter (\<lambda>c. c \<notin> set (acc @ [x])) xs"
    by (induction xs) auto
  show ?case
  proof (cases "x \<in> set acc")
    case True
    then show ?thesis using Cons.IH [of acc] by simp
  next
    case False
    then show ?thesis using Cons.IH [of "acc @ [x]"] eq by simp
  qed
qed

lemma fold_render:
  "fold (\<lambda>annotation citations.
             (let citation = render annotation
              in if citation \<notin> set citations then citations @ [citation] else citations)) anns acc
   = fold (\<lambda>c cs. if c \<notin> set cs then cs @ [c] else cs) (map render anns) acc"
  by (induction anns arbitrary: acc) (simp_all add: Let_def)

lemma collect_first_seen: "collect_citations anns = first_seen (map render anns)"
  by (simp add: collect_citations_def fold_render fold_dedupe)

lemma set_first_seen: "set (first_seen xs) = set xs"
  by (induction xs rule: first_seen.induct) auto

lemma distinct_first_seen: "distinct (first_seen xs)"
  by (induction xs rule: first_seen.induct) (auto simp: set_first_seen)

lemma isspace_simps [simp]:
  "isspace CHR ''\<newline>''" "\<not> isspace CHR ''#''" "\<not> isspace CHR '')''"
  by (simp_all add: isspace_def)

lemma rstrip_snoc_newline:
  "xs \<noteq> [] \<Longrightarrow> \<not> isspace (last xs) \<Longrightarrow> rstrip (xs @ ''\<newline>'') = xs"
  by (cases xs rule: rev_cases) (simp_all add: rstrip_def)

lemma strip_snoc_newline: "strip (xs @ ''\<newline>'') = strip xs"
  by (simp add: strip_def rstrip_def)

lemma lstrip_append_nonspace:
  "\<not> isspace y \<Longrightarrow> lstrip (xs @ y # ys) = lstrip xs @ y # ys"
  unfolding lstrip_def by (induction xs) simp_all

lemma fold_sources:
  "fold (\<lambda>citation result. result @ ''- '' @ citation @ ''\<newline>'') cs acc =
     acc @ concat (map (\<lambda>c. ''- '' @ c @ ''\<newline>'') cs)"
  by (induction cs arbitrary: acc) simp_all

lemma bullets_shift:
  "CHR ''\<newline>'' # concat (map (\<lambda>c. ''- '' @ c @ ''\<newline>'') cs) =
     concat (map (\<lambda>c. ''\<newline>- '' @ c) cs) @ ''\<newline>''"
  by (induction cs) simp_all

lemma newline_join_Cons:
  "newline_join (l # ls) = l @ concat (map (\<lambda>k. ''\<newline>'' @ k) ls)"
  by (induction ls arbitrary: l) simp_all

lemma sources_section_bullets:
  "sources_section cs = ''## Sources'' @ concat (map (\<lambda>c. ''\<newline>- '' @ c) cs)"
  by (simp add: sources_section_def newline_join_Cons comp_def)

lemma sources_section_alt:
  "sources cs = ''\<newline>\<newline>'' @ sources_section cs @ ''\<newline>''"
  unfolding sources_def fold_sources using bullets_shift [of cs]
  by (simp add: sources_section_bullets)

lemma last_sources_section:
  "cs \<noteq> [] \<Longrightarrow> last cs \<noteq> [] \<Longrightarrow> last (sources_section cs) = last (last cs)"
  by (cases cs rule: rev_cases) (simp_all add: sources_section_bullets)

lemma sources_section_Cons: "sources_section cs = CHR ''#'' # tl (sources_section cs)"
  by (simp add: sources_section_bullets)

lemma strip_sources:
  assumes "cs \<noteq> []" and "last cs \<noteq> []" and "\<not> isspace (last (last cs))"
  shows "strip (text @ sources cs) = lstrip (text @ ''\<newline>\<newline>'') @ sources_section cs"
proof -
  let ?X = "(text @ ''\<newline>\<newline>'') @ sources_section cs"
  have ne: "sources_section cs \<noteq> []" by (simp add: sources_section_bullets)
  then have "last ?X = last (sources_section cs)" by simp
  then have nsp: "\<not> isspace (last ?X)" using assms by (simp add: last_sources_section)
  have "text @ sources cs = ?X @ ''\<newline>''" by (simp add: sources_section_alt)
  then have "rstrip (text @ sources cs) = ?X"
    using rstrip_snoc_newline [of ?X] nsp ne by simp
  moreover have "lstrip ?X = lstrip (text @ ''\<newline>\<newline>'') @ sources_section cs"
    using lstrip_append_nonspace [of "CHR ''#''" "text @ ''\<newline>\<newline>''" "tl (sources_section cs)"]
      sources_section_Cons [of cs] by simp
  ultimately show ?thesis by (simp add: strip_def)
qed

lemma render_last: "render a \<noteq> [] \<and> \<not> isspace (last (render a))"
  by (simp add: render_def)

lemma collect_last:
  assumes "collect_citations anns \<noteq> []"
  shows "last (collect_citations anns) \<noteq> [] \<and> \<not> isspace (last (last (collect_citations anns)))"
proof -
  have "last (collect_citations anns) \<in> set (collect_citations anns)" using assms by simp
  then have "last (collect_citations anns) \<in> render ` set anns"
    by (simp add: collect_first_seen set_first_seen)
  then obtain a where "last (collect_citations anns) = render a" by auto
  then show ?thesis using render_last [of a] by simp
qed

lemma strip_collect:
  "collect_citations anns \<noteq> [] \<Longrightarrow>
   strip (text @ sources (collect_citations anns)) =
     lstrip (text @ ''\<newline>\<newline>'') @ sources_section (collect_citations anns)"
  using collect_last [of anns] by (intro strip_sources) simp_all

lemma build_result_some:
  "select_response msgs = Some m \<Longrightarrow>
   build_result t i msgs =
     success_dict t i
       (if collect_citations (url_citation_annotations m) \<noteq> []
        then join_text (text_messages m) @ sources (collect_citations (url_citation_annotations m))
        else join_text (text_messages m))
       (collect_citations (url_citation_annotations m))"
  by (simp add: build_result_def extract_message_def)

lemma build_result_none:
  "select_response msgs = None \<Longrightarrow> build_result t i msgs = success_dict t i [] []"
  by (simp add: build_result_def extract_message_def)

lemma success_dict_simps:
  "success_dict t i res cs ''success'' = Some (B True)"
  "success_dict t i res cs ''thread_id'' = Some (S t)"
  "success_dict t i res cs ''run_id'' = Some (S i)"
  "success_dict t i res cs ''result'' = Some (S (strip res))"
  "success_dict t i res cs ''citations'' = Some (L cs)"
  "success_dict t i res cs ''error'' = None"
  by (simp_all add: success_dict_def)

subsection \<open>Claims about the extraction\<close>

text \<open>
  In the claims that follow the four calls have started the run, the loop has ended
  with a run that has not failed, and the listing of line 98 has answered the messages
  \<open>msgs\<close>; the dictionary is the one \<open>query_agent\<close> returns.
\<close>

text \<open>
  Claim C4. For the agent message selected from the listing, the \<open>citations\<close> of the
  dictionary \<open>query_agent\<close> returns are the rendered annotations, each once, in the
  order of first occurrence: the list the code builds is the specification's
  deduplication of the rendered annotations, it has no duplicate, and it has the same
  elements. When it is not empty, \<open>result\<close> ends with the Sources section, the header
  line followed by one bulleted line for each citation in that order, after the text
  part.
\<close>

theorem citations_deduplicated:
  assumes "start_run c agent_id query w = (Inr (thread_id, run0), w1)"
    and "poll c thread_id run0 w1 = Some (Inr run1, w2)"
    and "status run1 \<noteq> ''failed''"
    and "messages_list c thread_id (fst w2) = (Inr msgs, s3)"
    and "select_response msgs = Some m"
  shows "(let d = build_result thread_id (run_ident run0) msgs;
              cs = collect_citations (url_citation_annotations m)
          in query_agent c agent_id query w = Some (Inr d, (s3, snd w2 @ [MessagesList thread_id]))
             \<and> d ''citations'' = Some (L cs)
             \<and> cs = first_seen (map render (url_citation_annotations m))
             \<and> distinct cs \<and> set cs = render ` set (url_citation_annotations m)
             \<and> (cs \<noteq> [] \<longrightarrow>
                  d ''result'' =
                    Some (S (lstrip (join_text (text_messages m) @ ''\<newline>\<newline>'') @ sources_section cs))))"
  using query_agent_completed [OF assms(1-4)] assms(5)
    strip_collect [of "url_citation_annotations m" "join_text (text_messages m)"]
  by (simp add: Let_def build_result_some success_dict_simps collect_first_seen
        distinct_first_seen set_first_seen)

theorem citations_deduplicated_witness:
  "select_response [question, answer [''A'', ''B''] [cite_a, cite_b, cite_a]] =
     Some (answer [''A'', ''B''] [cite_a, cite_b, cite_a])
   \<and> response_of (query_agent
        (scripted (a_script ''t'' (a_run ''r'' ''completed'')
           [question, answer [''A'', ''B''] [cite_a, cite_b, cite_a]])) ''agent'' ''q'' ([], []))
        ''citations'' = Some (L [''[Alpha](http://a)'', ''[Beta](http://b)''])
   \<and> response_of (query_agent
        (scripted (a_script ''t'' (a_run ''r'' ''completed'')
           [question, answer [''A'', ''B''] [cite_a, cite_b, cite_a]])) ''agent'' ''q'' ([], []))
        ''result'' =
       Some (S ''A\<newline>B\<newline>\<newline>\<newline>## Sources\<newline>- [Alpha](http://a)\<newline>- [Beta](http://b)'')"
  using citations_deduplicated [where c = "scripted (a_script ''t'' (a_run ''r'' ''completed'')
           [question, answer [''A'', ''B''] [cite_a, cite_b, cite_a]])"
      and agent_id = "''agent''" and query = "''q''" and w = "([], [])" and thread_id = "''t''"
      and ?run0.0 = "a_run ''r'' ''completed''" and ?run1.0 = "a_run ''r'' ''completed''"
      and ?w1.0 = "([], started ''agent'' ''t'' ''q'')" and ?w2.0 = "([], started ''agent'' ''t'' ''q'')"
      and msgs = "[question, answer [''A'', ''B''] [cite_a, cite_b, cite_a]]" and ?s3.0 = "[]"
      and m = "answer [''A'', ''B''] [cite_a, cite_b, cite_a]"]
  by (simp add: Let_def start_run_scripted poll_stop polling_def response_of_def
        select_response_def join_text_def sources_section_def lstrip_def isspace_def)

text \<open>
  Claim C5. The message used is the last one of the listing whose role is the agent's:
  when the listing answers the messages \<open>pre\<close>, then \<open>m\<close>, then \<open>post\<close>, and no message
  of \<open>post\<close> is the agent's, the dictionary \<open>query_agent\<close> returns has the text segments
  and the citations of \<open>m\<close> alone, whatever \<open>pre\<close> holds, agent messages included.
\<close>

theorem last_agent_message_used:
  assumes "start_run c agent_id query w = (Inr (thread_id, run0), w1)"
    and "poll c thread_id run0 w1 = Some (Inr run1, w2)"
    and "status run1 \<noteq> ''failed''"
    and "messages_list c thread_id (fst w2) = (Inr (pre @ m # post), s3)"
    and "role m = AGENT" and "\<forall>x \<in> set post. role x \<noteq> AGENT"
  shows "(let cs = collect_citations (url_citation_annotations m);
              text = join_text (text_messages m);
              d = success_dict thread_id (run_ident run0)
                    (if cs \<noteq> [] then text @ sources cs else text) cs
          in query_agent c agent_id query w = Some (Inr d, (s3, snd w2 @ [MessagesList thread_id]))
             \<and> d ''citations'' = Some (L cs)
             \<and> d ''result'' = Some (S (strip (if cs \<noteq> [] then text @ sources cs else text))))"
  using query_agent_completed [OF assms(1-4)] select_response_last [OF assms(5,6), of pre]
  by (simp add: Let_def build_result_some success_dict_simps)

theorem last_agent_message_used_witness:
  "response_of (query_agent
      (scripted (a_script ''t'' (a_run ''r'' ''completed'')
         [answer [''draft''] [cite_a], question, answer [''final''] [cite_b], question]))
      ''agent'' ''q'' ([], [])) ''citations'' = Some (L [''[Beta](http://b)''])
   \<and> response_of (query_agent
      (scripted (a_script ''t'' (a_run ''r'' ''completed'')
         [answer [''draft''] [cite_a], question, answer [''final''] [cite_b], question]))
      ''agent'' ''q'' ([], [])) ''result'' =
       Some (S ''final\<newline>\<newline>\<newline>## Sources\<newline>- [Beta](http://b)'')"
  using last_agent_message_used [where c = "scripted (a_script ''t'' (a_run ''r'' ''completed'')
         [answer [''draft''] [cite_a], question, answer [''final''] [cite_b], question])"
      and agent_id = "''agent''" and query = "''q''" and w = "([], [])" and thread_id = "''t''"
      and ?run0.0 = "a_run ''r'' ''completed''" and ?run1.0 = "a_run ''r'' ''completed''"
      and ?w1.0 = "([], started ''agent'' ''t'' ''q'')" and ?w2.0 = "([], started ''agent'' ''t'' ''q'')"
      and pre = "[answer [''draft''] [cite_a], question]" and m = "answer [''final''] [cite_b]"
      and post = "[question]" and ?s3.0 = "[]"]
  by (simp add: Let_def start_run_scripted poll_stop polling_def response_of_def
        collect_citations_def join_text_def sources_def strip_def lstrip_def rstrip_def isspace_def)

text \<open>
  Claim C6. When the loop ends with a run that has not failed, a completed run among
  them, and the listing has no message of the agent, \<open>query_agent\<close> returns a dictionary
  with \<open>success\<close> true, the empty string as \<open>result\<close> and the empty list as
  \<open>citations\<close>.
\<close>

theorem no_agent_message_result:
  assumes "start_run c agent_id query w = (Inr (thread_id, run0), w1)"
    and "poll c thread_id run0 w1 = Some (Inr run1, w2)"
    and "status run1 \<noteq> ''failed''"
    and "messages_list c thread_id (fst w2) = (Inr msgs, s3)"
    and "\<forall>x \<in> set msgs. role x \<noteq> AGENT"
  shows "(let d = success_dict thread_id (run_ident run0) [] []
          in query_agent c agent_id query w = Some (Inr d, (s3, snd w2 @ [MessagesList thread_id]))
             \<and> d ''success'' = Some (B True)
             \<and> d ''result'' = Some (S [])
             \<and> d ''citations'' = Some (L []))"
  using query_agent_completed [OF assms(1-4)] select_response_none [OF assms(5)]
  by (simp add: Let_def build_result_none success_dict_simps strip_def lstrip_def rstrip_def)

theorem no_agent_message_result_witness:
  "response_of (query_agent (scripted (a_script ''t'' (a_run ''r'' ''queued'') [question])) ''agent'' ''q''
      ([Inr (a_run ''r'' ''completed'')], [])) = success_dict ''t'' ''r'' [] []"
  using no_agent_message_result [of "scripted (a_script ''t'' (a_run ''r'' ''queued'') [question])"
      "''agent''" "''q''" "([Inr (a_run ''r'' ''completed'')], [])" "''t''" "a_run ''r'' ''queued''"
      _ "a_run ''r'' ''completed''" _ "[question]" "[]"]
  by (simp add: Let_def start_run_scripted poll_scripted_step poll_stop polling_def response_of_def)

text \<open>
  Claim C7, as the code has it. When the selected message has no citation annotation,
  the \<open>result\<close> of the dictionary \<open>query_agent\<close> returns is the text segments joined by
  line breaks and stripped at both ends, with no Sources section after it, and
  \<open>citations\<close> is empty; for the segments \<open>A\<close> and \<open>B\<close> the result is \<open>A\<close>, a line
  break, \<open>B\<close>.
\<close>

theorem text_only_result:
  assumes "start_run c agent_id query w = (Inr (thread_id, run0), w1)"
    and "poll c thread_id run0 w1 = Some (Inr run1, w2)"
    and "status run1 \<noteq> ''failed''"
    and "messages_list c thread_id (fst w2) = (Inr msgs, s3)"
    and "select_response msgs = Some m" and "url_citation_annotations m = []"
  shows "(let d = build_result thread_id (run_ident run0) msgs
          in query_agent c agent_id query w = Some (Inr d, (s3, snd w2 @ [MessagesList thread_id]))
             \<and> d ''result'' = Some (S (strip (newline_join (text_messages m))))
             \<and> d ''citations'' = Some (L [])
             \<and> (text_messages m = [''A'', ''B''] \<longrightarrow> d ''result'' = Some (S ''A\<newline>B'')))"
proof -
  let ?d = "build_result thread_id (run_ident run0) msgs"
  have c: "collect_citations (url_citation_annotations m) = []"
    using assms(6) by (simp add: collect_citations_def)
  have "strip (join_text (text_messages m)) = strip (newline_join (text_messages m))"
  proof (cases "text_messages m = []")
    case True
    then show ?thesis by (simp add: join_text_def)
  next
    case False
    then show ?thesis by (simp add: join_text_newline_join strip_snoc_newline)
  qed
  then have r: "?d ''result'' = Some (S (strip (newline_join (text_messages m))))"
    using assms(5) c by (simp add: build_result_some success_dict_simps)
  have "strip (newline_join [''A'', ''B'']) = ''A\<newline>B''"
    by (simp add: strip_def lstrip_def rstrip_def isspace_def)
  with r have ab: "text_messages m = [''A'', ''B''] \<longrightarrow> ?d ''result'' = Some (S ''A\<newline>B'')"
    by simp
  have "?d ''citations'' = Some (L [])"
    using assms(5) c by (simp add: build_result_some success_dict_simps)
  with r ab query_agent_completed [OF assms(1-4)] show ?thesis by (simp add: Let_def)
qed

theorem text_only_result_witness:
  "select_response [question, answer [''A'', ''B''] []] = Some (answer [''A'', ''B''] [])
   \<and> response_of (query_agent
        (scripted (a_script ''t'' (a_run ''r'' ''completed'') [question, answer [''A'', ''B''] []]))
        ''agent'' ''q'' ([], [])) ''result'' = Some (S ''A\<newline>B'')
   \<and> response_of (query_agent
        (scripted (a_script ''t'' (a_run ''r'' ''completed'') [question, answer [''A'', ''B''] []]))
        ''agent'' ''q'' ([], [])) ''citations'' = Some (L [])"
  using text_only_result [where c = "scripted (a_script ''t'' (a_run ''r'' ''completed'')
           [question, answer [''A'', ''B''] []])"
      and agent_id = "''agent''" and query = "''q''" and w = "([], [])" and thread_id = "''t''"
      and ?run0.0 = "a_run ''r'' ''completed''" and ?run1.0 = "a_run ''r'' ''completed''"
      and ?w1.0 = "([], started ''agent'' ''t'' ''q'')" and ?w2.0 = "([], started ''agent'' ''t'' ''q'')"
      and msgs = "[question, answer [''A'', ''B''] []]" and ?s3.0 = "[]"
      and m = "answer [''A'', ''B''] []"]
  by (simp add: Let_def start_run_scripted poll_stop polling_def response_of_def select_response_def
        strip_def lstrip_def rstrip_def isspace_def)

text \<open>
  Claim C7 as stated has only trailing whitespace trimmed. For the segments \<open> A\<close>, with
  a leading space, and \<open>B\<close>, the result \<open>query_agent\<close> returns has lost the leading
  space, where trimming at the end alone keeps it.
\<close>

theorem leading_space_counterexample:
  "response_of (query_agent
      (scripted (a_script ''t'' (a_run ''r'' ''completed'') [answer ['' A'', ''B''] []]))
      ''agent'' ''q'' ([], [])) ''result'' = Some (S ''A\<newline>B'')
   \<and> rstrip (newline_join ['' A'', ''B'']) = '' A\<newline>B''
   \<and> response_of (query_agent
      (scripted (a_script ''t'' (a_run ''r'' ''completed'') [answer ['' A'', ''B''] []]))
      ''agent'' ''q'' ([], [])) ''result'' \<noteq> Some (S (rstrip (newline_join ['' A'', ''B''])))"
  by (simp add: run_scripted build_result_def select_response_def extract_message_def
        collect_citations_def join_text_def success_dict_def strip_def lstrip_def rstrip_def
        isspace_def)



end
